theory Spec2Isabelle
  imports
    Complex_Main
    "HOL-Library.Char_ord"
    "HOL-Library.List_Lexorder"
    "HOL-Library.Product_Lexorder"
begin

section \<open>Data model\<close>

text \<open>
  A calendar day is represented by its day number (the proleptic ordinal of
  \<^verbatim>\<open>datetime.toordinal\<close>).  The program renders days as \<^verbatim>\<open>'%Y-%m-%d'\<close> strings
  and compares these strings; for days with four-digit years (today, the provider's trading
  days and every day pandas can hold) that rendering is injective and order preserving, so a
  comparison of two rendered days is the comparison of their day numbers.  A long frame holds
  days that pandas has rendered, which lie in the range of its timestamps.

  A float64 value other than NaN is a real number or one of the two infinities; a cell is such
  a value or null (\<open>None\<close>: NaN or \<^verbatim>\<open>None\<close>, which pandas treats alike).  Arithmetic on
  numbers is exact: rounding, overflow and the sign of zero are not part of the model (a zero
  is \<open>+0.0\<close>).
\<close>

type_synonym date = int

datatype f64 = Fin real | PInf | NInf

type_synonym cell = "f64 option"

text \<open>A column of numbers with nulls, as the statistics of a group of finite values see it.\<close>

type_synonym num = "real option"

datatype exn = ValueError | KeyError | IndexError | InvalidIndexError
  | OutOfBoundsDatetime | OverflowError

text \<open>The days \<^verbatim>\<open>pd.Timestamp\<close> can hold at midnight: 1677-09-22 to 2262-04-11.\<close>

definition TIMESTAMP_MIN_DAY :: date where
  "TIMESTAMP_MIN_DAY = 612412"

definition TIMESTAMP_MAX_DAY :: date where
  "TIMESTAMP_MAX_DAY = 825914"

definition in_timestamp_range :: "date \<Rightarrow> bool" where
  "in_timestamp_range d \<longleftrightarrow> TIMESTAMP_MIN_DAY \<le> d \<and> d \<le> TIMESTAMP_MAX_DAY"

text \<open>A row of the stock pool frame, and a row of the long-format frame that
  \<^verbatim>\<open>get_ah_premium_data\<close> returns (the pool's columns plus date, prices, rate and
  premium).\<close>

record pool_row =
  H_stock_code :: string
  A_stock_code :: string
  stock_name :: string

record obs = pool_row +
  date :: date
  A_price :: cell
  H_price :: cell
  exchange_rate :: cell
  HA_premium_rate :: cell

text \<open>The result object of a provider call: error code, data (one list per code),
  codes and times.\<close>

record 'a wind_data =
  ErrorCode :: int
  Data :: "'a list list"
  Codes :: "string list"
  Times :: "date list"

text \<open>The provider \<^verbatim>\<open>w\<close>: the close-price series query \<^verbatim>\<open>w.wsd(codes, "close", start, end, "")\<close>
  and the trading-day query \<^verbatim>\<open>w.tdaysoffset(0, day, "")\<close>.  Every call made is
  recorded, in order, as a \<open>query\<close>.\<close>

record provider =
  wsd :: "string list \<Rightarrow> date \<Rightarrow> date \<Rightarrow> cell wind_data"
  tdaysoffset :: "date \<Rightarrow> date wind_data"

datatype query = WSD "string list" date date | TDaysOffset date

section \<open>The price and FX fetcher (get_ah_premium_data.py)\<close>

text \<open>Float division, subtraction and addition.  A number over zero is an infinity with the
  sign of the number, zero over zero is NaN, a number over an infinity is zero, and an infinity
  over or minus an infinity is NaN.\<close>

fun div_f64 :: "f64 \<Rightarrow> f64 \<Rightarrow> cell" where
  "div_f64 (Fin x) (Fin y) =
     (if y \<noteq> 0 then Some (Fin (x / y))
      else if x = 0 then None
      else if 0 < x then Some PInf else Some NInf)"
| "div_f64 (Fin x) PInf = Some (Fin 0)"
| "div_f64 (Fin x) NInf = Some (Fin 0)"
| "div_f64 PInf (Fin y) = (if 0 \<le> y then Some PInf else Some NInf)"
| "div_f64 NInf (Fin y) = (if 0 \<le> y then Some NInf else Some PInf)"
| "div_f64 PInf PInf = None"
| "div_f64 PInf NInf = None"
| "div_f64 NInf PInf = None"
| "div_f64 NInf NInf = None"

fun add_f64 :: "f64 \<Rightarrow> f64 \<Rightarrow> cell" where
  "add_f64 (Fin x) (Fin y) = Some (Fin (x + y))"
| "add_f64 (Fin x) PInf = Some PInf"
| "add_f64 (Fin x) NInf = Some NInf"
| "add_f64 PInf (Fin y) = Some PInf"
| "add_f64 NInf (Fin y) = Some NInf"
| "add_f64 PInf PInf = Some PInf"
| "add_f64 NInf NInf = Some NInf"
| "add_f64 PInf NInf = None"
| "add_f64 NInf PInf = None"

fun neg_f64 :: "f64 \<Rightarrow> f64" where
  "neg_f64 (Fin x) = Fin (- x)"
| "neg_f64 PInf = NInf"
| "neg_f64 NInf = PInf"

definition fdiv :: "cell \<Rightarrow> cell \<Rightarrow> cell" where
  "fdiv a b = (case (a, b) of (Some x, Some y) \<Rightarrow> div_f64 x y | _ \<Rightarrow> None)"

definition fadd :: "cell \<Rightarrow> cell \<Rightarrow> cell" where
  "fadd a b = (case (a, b) of (Some x, Some y) \<Rightarrow> add_f64 x y | _ \<Rightarrow> None)"

definition fsub :: "cell \<Rightarrow> cell \<Rightarrow> cell" where
  "fsub a b = (case (a, b) of (Some x, Some y) \<Rightarrow> add_f64 x (neg_f64 y) | _ \<Rightarrow> None)"

text \<open>\<^verbatim>\<open>pd.DataFrame(d.Data, index=d.Codes, columns=d.Times).T\<close>: one column per code.
  Short rows are padded with nulls.  A payload of one row is repeated for every code; for any
  other number of rows the constructor raises when it is not the number of codes, and it raises
  when the width is not the number of times.\<close>

definition width :: "'a list list \<Rightarrow> nat" where
  "width rs = fold (\<lambda>r m. max (length r) m) rs 0"

definition pad :: "nat \<Rightarrow> cell list \<Rightarrow> cell list" where
  "pad n r = r @ replicate (n - length r) None"

definition code_columns :: "cell wind_data \<Rightarrow> exn + (string \<times> cell list) list" where
  "code_columns d =
     (if width (Data d) \<noteq> length (Times d) then Inl ValueError
      else if length (Data d) = length (Codes d)
      then Inr (zip (Codes d) (map (pad (length (Times d))) (Data d)))
      else if length (Data d) = 1
      then Inr (map (\<lambda>c. (c, pad (length (Times d)) (hd (Data d)))) (Codes d))
      else Inl ValueError)"

text \<open>\<^verbatim>\<open>reset_index().melt(id_vars='date', var_name='code', value_name='price')\<close>:
  the long frame, code by code, of (date, code, price).\<close>

definition melt :: "date list \<Rightarrow> (string \<times> cell list) list \<Rightarrow> (date \<times> string \<times> cell) list" where
  "melt ts cols = concat (map (\<lambda>(c, vs). map (\<lambda>(t, v). (t, c, v)) (zip ts vs)) cols)"

definition exchange_rate_code :: string where
  "exchange_rate_code = ''HKDCNYFIX.HKS''"

text \<open>A left merge keeps a left row with no partner, the partner's value null.\<close>

definition left_matches :: "('a \<Rightarrow> bool) \<Rightarrow> ('a \<Rightarrow> cell) \<Rightarrow> 'a list \<Rightarrow> cell list" where
  "left_matches p v xs = (case filter p xs of [] \<Rightarrow> [None] | ys \<Rightarrow> map v ys)"

text \<open>Step 4: \<^verbatim>\<open>np.where(A.isnull() | (A == 0), np.nan, H / fx / A - 1)\<close>.  (The
  docstring of the function writes the formula as H times the rate over A, minus 1; the code
  divides by the rate, and the code is what is modelled.)\<close>

definition premium :: "cell \<Rightarrow> cell \<Rightarrow> cell \<Rightarrow> cell" where
  "premium a h fx =
     (if a = None \<or> a = Some (Fin 0) then None
      else fsub (fdiv (fdiv h fx) a) (Some (Fin 1)))"

text \<open>Step 3 and 4: the three merges, then the premium column.\<close>

definition final_data ::
  "pool_row list \<Rightarrow> (date \<times> string \<times> cell) list \<Rightarrow> (date \<times> cell) list \<Rightarrow> obs list" where
  "final_data pool price_long fx_rows =
     (let all_a_codes = map A_stock_code pool;
          all_h_codes = map H_stock_code pool;
          a_price_df = filter (\<lambda>(t, c, v). c \<in> set all_a_codes) price_long;
          h_price_df = filter (\<lambda>(t, c, v). c \<in> set all_h_codes) price_long
      in concat (map (\<lambda>(t, c, a).
           concat (map (\<lambda>p.
             concat (map (\<lambda>h.
               map (\<lambda>fx.
                 \<lparr>H_stock_code = H_stock_code p, A_stock_code = c, stock_name = stock_name p,
                  date = t, A_price = a, H_price = h, exchange_rate = fx,
                  HA_premium_rate = premium a h fx\<rparr>)
                 (left_matches (\<lambda>(t', x). t' = t) snd fx_rows))
               (left_matches (\<lambda>(t', c', v). t' = t \<and> c' = H_stock_code p) (\<lambda>(t', c', v). v)
                  h_price_df)))
             (filter (\<lambda>p. A_stock_code p = c) pool)))
           a_price_df))"

text \<open>\<^verbatim>\<open>dropna(subset=['A_price', 'H_price', 'exchange_rate'])\<close>.\<close>

definition dropna :: "obs list \<Rightarrow> obs list" where
  "dropna df = filter (\<lambda>r. A_price r \<noteq> None \<and> H_price r \<noteq> None \<and> exchange_rate r \<noteq> None) df"

text \<open>\<^verbatim>\<open>pd.to_datetime(final_data['date'])\<close> on the rows that are left: it raises when a
  day is outside the range of timestamps.\<close>

definition dates_to_datetime :: "obs list \<Rightarrow> exn + obs list" where
  "dates_to_datetime df =
     (if list_all (\<lambda>r. in_timestamp_range (date r)) df then Inr df
      else Inl OutOfBoundsDatetime)"

text \<open>\<^verbatim>\<open>sort_values(by=['date', 'stock_name'])\<close>, a stable sort on the pair.\<close>

definition sort_values :: "obs list \<Rightarrow> obs list" where
  "sort_values df = sort_key (\<lambda>r. (date r, stock_name r)) df"

text \<open>The test \<^verbatim>\<open>d.ErrorCode != 0 or not d.Data or not d.Data[0]\<close> made on each response.\<close>

definition no_payload :: "'a wind_data \<Rightarrow> bool" where
  "no_payload d \<longleftrightarrow> ErrorCode d \<noteq> 0 \<or> Data d = [] \<or> hd (Data d) = []"

text \<open>The exchange-rate frame: the column of \<open>exchange_rate_code\<close> is renamed to
  \<^verbatim>\<open>'exchange_rate'\<close>; reading that column later raises when the response names no such
  code (a response naming it twice is treated alike).\<close>

definition exchange_rate_df :: "cell wind_data \<Rightarrow> exn + (date \<times> cell) list" where
  "exchange_rate_df d =
     (case code_columns d of
        Inl e \<Rightarrow> Inl e
      | Inr cols \<Rightarrow>
          (case filter (\<lambda>(c, vs). c = exchange_rate_code) cols of
             [(c, vs)] \<Rightarrow> Inr (zip (Times d) vs)
           | _ \<Rightarrow> Inl KeyError))"

text \<open>Steps 3 and 4 and the clean-up, once both responses are in.\<close>

definition integrate :: "pool_row list \<Rightarrow> cell wind_data \<Rightarrow> cell wind_data \<Rightarrow> exn + obs list" where
  "integrate pool price_data exchange_rate_data =
     (case code_columns price_data of
        Inl e \<Rightarrow> Inl e
      | Inr price_cols \<Rightarrow>
          (case exchange_rate_df exchange_rate_data of
             Inl e \<Rightarrow> Inl e
           | Inr fx_rows \<Rightarrow>
               (case dates_to_datetime
                       (dropna (final_data pool (melt (Times price_data) price_cols) fx_rows)) of
                  Inl e \<Rightarrow> Inl e
                | Inr rows \<Rightarrow> Inr (sort_values rows))))"

text \<open>The function itself.  \<open>wind_available\<close> is the module's \<^verbatim>\<open>WIND_AVAILABLE\<close>; the pool
  argument may be \<^verbatim>\<open>None\<close>, and so may the end date.  The result is the frame returned (an
  empty list is the empty frame) or the exception raised, with the provider calls made.  The
  price frame is built before the second query is sent, so its exception leaves one call.\<close>

definition get_ah_premium_data ::
  "provider \<Rightarrow> bool \<Rightarrow> pool_row list option \<Rightarrow> date \<Rightarrow> date option \<Rightarrow> (exn + obs list) \<times> query list" where
  "get_ah_premium_data w wind_available stock_pool_df start_date end_date_opt =
     (if \<not> wind_available then (Inr [], [])
      else if stock_pool_df = None \<or> stock_pool_df = Some [] then (Inr [], [])
      else
        let pool = the stock_pool_df;
            end_date = (if end_date_opt = None then start_date else the end_date_opt);
            all_codes = map A_stock_code pool @ map H_stock_code pool;
            q1 = WSD all_codes start_date end_date;
            price_data = wsd w all_codes start_date end_date;
            q2 = WSD [exchange_rate_code] start_date end_date;
            exchange_rate_data = wsd w [exchange_rate_code] start_date end_date
        in if no_payload price_data then (Inr [], [q1])
           else if isl (code_columns price_data) then (Inl (projl (code_columns price_data)), [q1])
           else if no_payload exchange_rate_data then (Inr [], [q1, q2])
           else (integrate pool price_data exchange_rate_data, [q1, q2]))"

section \<open>The report builder (continuous_monitor.py)\<close>

text \<open>A wide frame: the column labels in order, and the rows in order, each an index label
  with one cell per column.  The index of a pivot holds stock names.\<close>

record ('i, 'c) frame =
  columns :: "'c list"
  rows :: "('i \<times> cell list) list"

text \<open>A column label of a report sheet: the rendering of a day, or a header text that
  \<^verbatim>\<open>pd.to_datetime\<close> does not parse.\<close>

datatype label = Day date | Text string

text \<open>The four value columns, in the order of \<^verbatim>\<open>value_columns\<close>.\<close>

datatype value_col = Col_HA_premium_rate | Col_A_price | Col_H_price | Col_exchange_rate

fun col :: "value_col \<Rightarrow> obs \<Rightarrow> cell" where
  "col Col_HA_premium_rate r = HA_premium_rate r"
| "col Col_A_price r = A_price r"
| "col Col_H_price r = H_price r"
| "col Col_exchange_rate r = exchange_rate r"

text \<open>\<^verbatim>\<open>df.drop_duplicates(subset=[...])\<close> with the default \<^verbatim>\<open>keep='first'\<close>: a row is kept
  and every later row with its key is removed.\<close>

fun drop_duplicates_by :: "('a \<Rightarrow> 'k) \<Rightarrow> 'a list \<Rightarrow> 'a list" where
  "drop_duplicates_by key [] = []"
| "drop_duplicates_by key (x # xs) = x # drop_duplicates_by key (filter (\<lambda>y. key y \<noteq> key x) xs)"

definition pivot_key :: "obs \<Rightarrow> string \<times> date" where
  "pivot_key r = (stock_name r, date r)"

definition drop_duplicates :: "obs list \<Rightarrow> obs list" where
  "drop_duplicates df = drop_duplicates_by pivot_key df"

text \<open>The non-null values of a column, in order (\<^verbatim>\<open>skipna\<close>).\<close>

definition non_null :: "'a option list \<Rightarrow> 'a list" where
  "non_null vs = map the (filter (\<lambda>v. v \<noteq> None) vs)"

text \<open>The default aggregation of \<^verbatim>\<open>pivot_table\<close>, the mean of the non-null values of a
  group (their float sum over their number); null when there is none.\<close>

definition fsum :: "f64 list \<Rightarrow> cell" where
  "fsum xs = fold (\<lambda>x acc. fadd acc (Some x)) xs (Some (Fin 0))"

definition fmean :: "cell list \<Rightarrow> cell" where
  "fmean vs =
     (let xs = non_null vs
      in if xs = [] then None else fdiv (fsum xs) (Some (Fin (real (length xs)))))"

text \<open>\<^verbatim>\<open>df.pivot_table(index='stock_name', columns='date', values=value_col)\<close>: the rows are
  grouped by (stock, date) in key order and aggregated; groups whose aggregate is null are
  dropped (\<^verbatim>\<open>dropna=True\<close>); the date level is unstacked, which leaves the stocks and the
  dates that still occur, each sorted, and fills a missing pair with null.  After that no column
  is entirely null, so the closing removal of such columns changes nothing.\<close>

definition agg_mean :: "obs list \<Rightarrow> value_col \<Rightarrow> ((string \<times> date) \<times> f64) list" where
  "agg_mean df c =
     List.map_filter
       (\<lambda>k. map_option (Pair k) (fmean (map (col c) (filter (\<lambda>r. pivot_key r = k) df))))
       (sort (remdups (map pivot_key df)))"

definition unstack :: "((string \<times> date) \<times> f64) list \<Rightarrow> (string, date) frame" where
  "unstack agged =
     (let idx = sort (remdups (map (fst \<circ> fst) agged));
          cols = sort (remdups (map (snd \<circ> fst) agged))
      in \<lparr>columns = cols, rows = map (\<lambda>s. (s, map (\<lambda>d. map_of agged (s, d)) cols)) idx\<rparr>)"

definition pivot_table :: "obs list \<Rightarrow> value_col \<Rightarrow> (string, date) frame" where
  "pivot_table df c = unstack (agg_mean df c)"

text \<open>\<^verbatim>\<open>create_pivot_table(df, value_col)\<close>: de-duplicate, pivot, render the column days.\<close>

definition create_pivot_table :: "obs list \<Rightarrow> value_col \<Rightarrow> (string, label) frame" where
  "create_pivot_table df c =
     (let df_dedup = drop_duplicates df;
          pivot = pivot_table df_dedup c
      in \<lparr>columns = map Day (columns pivot), rows = rows pivot\<rparr>)"

text \<open>A call passes the frame by reference.  \<open>drop_duplicates\<close> and \<open>pivot_table\<close>
  return new frames, so the caller's frame after the call is the one passed in; the call
  yields the pivot together with that frame.\<close>

definition call_create_pivot_table ::
  "obs list \<Rightarrow> value_col \<Rightarrow> (string, label) frame \<times> obs list" where
  "call_create_pivot_table df c = (create_pivot_table df c, df)"

text \<open>Reading a cell by its labels (the first row and the first column that carry them);
  null when a label is absent, as after a \<^verbatim>\<open>reindex\<close>.\<close>

definition cell :: "('i, 'c) frame \<Rightarrow> 'i \<Rightarrow> 'c \<Rightarrow> cell" where
  "cell t s c =
     (case map_of (rows t) s of
        None \<Rightarrow> None
      | Some vs \<Rightarrow> (case map_of (zip (columns t) vs) c of None \<Rightarrow> None | Some v \<Rightarrow> v))"

definition index :: "('i, 'c) frame \<Rightarrow> 'i list" where
  "index t = map fst (rows t)"

text \<open>\<^verbatim>\<open>pd.concat([a, b], axis=1)\<close>: the columns of \<open>a\<close> followed by those of \<open>b\<close>.
  Equal indexes are joined row by row.  Otherwise the rows are aligned on the union of the
  two indexes in order of appearance (no sorting), a label missing on one side getting
  nulls there; that alignment raises when an index has a duplicate.\<close>

definition row_of :: "('i, 'c) frame \<Rightarrow> 'i \<Rightarrow> cell list" where
  "row_of t s =
     (case map_of (rows t) s of None \<Rightarrow> replicate (length (columns t)) None | Some vs \<Rightarrow> vs)"

definition pd_concat :: "('i, 'c) frame \<Rightarrow> ('i, 'c) frame \<Rightarrow> exn + ('i, 'c) frame" where
  "pd_concat a b =
     (if index a = index b
      then Inr \<lparr>columns = columns a @ columns b,
                rows = map (\<lambda>((s, u), (s', v)). (s, u @ v)) (zip (rows a) (rows b))\<rparr>
      else if \<not> distinct (index a) \<or> \<not> distinct (index b) then Inl InvalidIndexError
      else Inr \<lparr>columns = columns a @ columns b,
                rows = map (\<lambda>s. (s, row_of a s @ row_of b s))
                         (index a @ filter (\<lambda>s. s \<notin> set (index a)) (index b))\<rparr>)"

subsection \<open>The monitor run\<close>

text \<open>The four sheets of the report, in the order of \<^verbatim>\<open>SHEET_NAMES\<close> (premium rate,
  A close, H close, exchange rate), paired with \<^verbatim>\<open>value_columns\<close>.\<close>

datatype sheet_name = Sheet_premium | Sheet_A_close | Sheet_H_close | Sheet_rate

definition SHEET_NAMES :: "sheet_name list" where
  "SHEET_NAMES = [Sheet_premium, Sheet_A_close, Sheet_H_close, Sheet_rate]"

definition value_columns :: "value_col list" where
  "value_columns = [Col_HA_premium_rate, Col_A_price, Col_H_price, Col_exchange_rate]"

text \<open>An index label of a sheet: a stock name, or a label that is not text (a missing value, a
  number); two labels of the second kind are the same label when their tokens are equal.  A
  pivot enters a sheet with its stock names as labels.\<close>

datatype ilabel = Name string | Other nat

type_synonym sheet = "(ilabel, label) frame"

definition named :: "(string, 'c) frame \<Rightarrow> (ilabel, 'c) frame" where
  "named t = \<lparr>columns = columns t, rows = map (\<lambda>(s, vs). (Name s, vs)) (rows t)\<rparr>"

text \<open>The report file on disk: the sheets a writer stored, or other bytes.  What
  \<^verbatim>\<open>pd.read_excel(file, sheet_name=s, index_col=0)\<close> makes of a file (a sheet with its
  headers and index labels as pandas reads them, or an exception) belongs to pandas and is
  given to the run as a function of the file and the sheet name.\<close>

datatype xl_file = Unreadable | Workbook "(sheet_name \<times> sheet) list"

type_synonym reader = "xl_file \<Rightarrow> sheet_name \<Rightarrow> exn + sheet"

text \<open>\<^verbatim>\<open>pd.to_datetime\<close> on a header raises for a text that is no date and for a day
  outside the range of timestamps; adding \<^verbatim>\<open>timedelta(days=1)\<close> to a timestamp raises
  when the next day is outside that range.\<close>

definition to_datetime :: "label \<Rightarrow> exn + date" where
  "to_datetime l =
     (case l of
        Day d \<Rightarrow> if in_timestamp_range d then Inr d else Inl OutOfBoundsDatetime
      | Text x \<Rightarrow> Inl ValueError)"

definition add_one_day :: "date \<Rightarrow> exn + date" where
  "add_one_day d = (if TIMESTAMP_MAX_DAY < d + 1 then Inl OverflowError else Inr (d + 1))"

text \<open>The default start date \<^verbatim>\<open>"2024-01-01"\<close>, as a day number.\<close>

definition DEFAULT_START :: date where
  "DEFAULT_START = 738886"

text \<open>The loop that reads every sheet into \<^verbatim>\<open>existing_data\<close>; it stops at the first
  exception.\<close>

fun read_sheets :: "reader \<Rightarrow> xl_file \<Rightarrow> sheet_name list \<Rightarrow> exn + (sheet_name \<times> sheet) list" where
  "read_sheets read_excel f [] = Inr []"
| "read_sheets read_excel f (sh # shs) =
     (case read_excel f sh of
        Inl e \<Rightarrow> Inl e
      | Inr t \<Rightarrow>
          (case read_sheets read_excel f shs of
             Inl e \<Rightarrow> Inl e
           | Inr ts \<Rightarrow> Inr ((sh, t) # ts)))"

text \<open>Step 2 of \<^verbatim>\<open>main\<close>: the pair (\<^verbatim>\<open>start_date_str\<close>, \<^verbatim>\<open>existing_data\<close>) after the
  \<^verbatim>\<open>try\<close> block.  An exception leaves \<^verbatim>\<open>start_date_str\<close> as it was when the exception
  was raised, and the handler empties \<^verbatim>\<open>existing_data\<close>.\<close>

definition check_existing :: "reader \<Rightarrow> xl_file option \<Rightarrow> date \<times> (sheet_name \<times> sheet) list" where
  "check_existing read_excel existing =
     (case existing of
        None \<Rightarrow> (DEFAULT_START, [])
      | Some f \<Rightarrow>
          (case read_excel f (hd SHEET_NAMES) of
             Inl e \<Rightarrow> (DEFAULT_START, [])
           | Inr existing_premium \<Rightarrow>
               if columns existing_premium = [] then (DEFAULT_START, [])
               else
                 (case to_datetime (last (columns existing_premium)) of
                    Inl e \<Rightarrow> (DEFAULT_START, [])
                  | Inr last_date_in_file \<Rightarrow>
                      (case add_one_day last_date_in_file of
                         Inl e \<Rightarrow> (DEFAULT_START, [])
                       | Inr start_date \<Rightarrow>
                           (case read_sheets read_excel f SHEET_NAMES of
                              Inl e \<Rightarrow> (start_date, [])
                            | Inr existing_data \<Rightarrow> (start_date, existing_data))))))"

text \<open>Step 4: one pivot per sheet, each call made on the frame the previous call left.\<close>

fun new_pivots ::
  "obs list \<Rightarrow> (sheet_name \<times> value_col) list \<Rightarrow> (sheet_name \<times> (string, label) frame) list" where
  "new_pivots df [] = []"
| "new_pivots df ((sheet, value_col) # rest) =
     (case call_create_pivot_table df value_col of
        (pivot, df') \<Rightarrow> (sheet, pivot) # new_pivots df' rest)"

text \<open>Step 5: sheet by sheet, the old table with the new one appended.\<close>

fun merge_sheets ::
  "(sheet_name \<times> sheet) list \<Rightarrow> (sheet_name \<times> sheet) list \<Rightarrow> sheet_name list \<Rightarrow>
   exn + (sheet_name \<times> sheet) list" where
  "merge_sheets existing new [] = Inr []"
| "merge_sheets existing new (sh # shs) =
     (case (map_of existing sh, map_of new sh) of
        (Some a, Some b) \<Rightarrow>
          (case pd_concat a b of
             Inl e \<Rightarrow> Inl e
           | Inr t \<Rightarrow>
               (case merge_sheets existing new shs of
                  Inl e \<Rightarrow> Inl e
                | Inr ts \<Rightarrow> Inr ((sh, t) # ts)))
      | _ \<Rightarrow> Inl KeyError)"

text \<open>What a run is given: the frame that \<^verbatim>\<open>get_ah_shhk_connect_stocks()\<close> returned, the
  module flag, the provider, today's day, the report file if there is one, and the reader.
  What it leaves: how it ended, the provider calls it made, and the report file afterwards.
  An exception that \<^verbatim>\<open>main\<close> does not catch ends the run as \<open>Crashed\<close>.  The writer of
  step 6 is taken to succeed; the file it leaves holds the sheets it was given.\<close>

record env =
  stock_pool :: "pool_row list"
  WIND_AVAILABLE :: bool
  wind :: provider
  today :: date
  report_file :: "xl_file option"
  read_excel :: reader

datatype outcome = NoStockPool | UpToDate | NoNewData | Saved | Crashed exn

record run =
  outcome :: outcome
  queries :: "query list"
  file_after :: "xl_file option"

text \<open>Steps 3 to 6, from the start date and the old sheets on; \<open>qs\<close> are the calls
  made so far.\<close>

definition fetch_and_save ::
  "env \<Rightarrow> date \<Rightarrow> (sheet_name \<times> sheet) list \<Rightarrow> query list \<Rightarrow> run" where
  "fetch_and_save e start_date existing_data qs =
     (case get_ah_premium_data (wind e) (WIND_AVAILABLE e) (Some (stock_pool e)) start_date
             (Some (today e)) of
        (Inl x, qs') \<Rightarrow> \<lparr>outcome = Crashed x, queries = qs @ qs', file_after = report_file e\<rparr>
      | (Inr long_df, qs') \<Rightarrow>
          if long_df = [] then \<lparr>outcome = NoNewData, queries = qs @ qs', file_after = report_file e\<rparr>
          else
            let pivots = map (\<lambda>(sheet, pivot). (sheet, named pivot))
                           (new_pivots long_df (zip SHEET_NAMES value_columns))
            in if existing_data \<noteq> []
               then (case merge_sheets existing_data pivots SHEET_NAMES of
                       Inl x \<Rightarrow> \<lparr>outcome = Crashed x, queries = qs @ qs', file_after = report_file e\<rparr>
                     | Inr final_pivots \<Rightarrow>
                         \<lparr>outcome = Saved, queries = qs @ qs',
                          file_after = Some (Workbook final_pivots)\<rparr>)
               else \<lparr>outcome = Saved, queries = qs @ qs', file_after = Some (Workbook pivots)\<rparr>)"

definition main :: "env \<Rightarrow> run" where
  "main e =
     (if stock_pool e = [] then \<lparr>outcome = NoStockPool, queries = [], file_after = report_file e\<rparr>
      else
        case check_existing (read_excel e) (report_file e) of
          (start_date, existing_data) \<Rightarrow>
            let end_date = today e;
                latest = tdaysoffset (wind e) end_date;
                answered = (WIND_AVAILABLE e \<and> ErrorCode latest = 0 \<and> Data latest \<noteq> []);
                qs = (if WIND_AVAILABLE e then [TDaysOffset end_date] else [])
            in if answered \<and> hd (Data latest) = []
               then \<lparr>outcome = Crashed IndexError, queries = qs, file_after = report_file e\<rparr>
               else if answered \<and> start_date > hd (hd (Data latest))
               then \<lparr>outcome = UpToDate, queries = qs, file_after = report_file e\<rparr>
               else if start_date > end_date
               then \<lparr>outcome = UpToDate, queries = qs, file_after = report_file e\<rparr>
               else fetch_and_save e start_date existing_data qs)"

section \<open>The statistics aggregator (get_history_premium_data.py)\<close>








definition is_finite :: "f64 \<Rightarrow> bool" where
  "is_finite x = (case x of Fin r \<Rightarrow> True | _ \<Rightarrow> False)"

definition to_num :: "cell \<Rightarrow> num" where
  "to_num v = (case v of Some (Fin r) \<Rightarrow> Some r | _ \<Rightarrow> None)"







section \<open>Reference notions\<close>

text \<open>The rows of a long frame whose day lies in a closed range.\<close>

definition window :: "date \<Rightarrow> date \<Rightarrow> obs list \<Rightarrow> obs list" where
  "window lo hi df = filter (\<lambda>r. lo \<le> date r \<and> date r \<le> hi) df"

text \<open>The value of the first row of a long frame that has a given stock and day: null when
  there is no such row.\<close>

definition first_value :: "obs list \<Rightarrow> value_col \<Rightarrow> string \<Rightarrow> date \<Rightarrow> cell" where
  "first_value df c s d =
     (case find (\<lambda>r. stock_name r = s \<and> date r = d) df of None \<Rightarrow> None | Some r \<Rightarrow> col c r)"

text \<open>The stocks and the days for which the first row of a long frame carries a value.\<close>

definition stocks :: "obs list \<Rightarrow> value_col \<Rightarrow> string set" where
  "stocks df c = {s. \<exists>d. first_value df c s d \<noteq> None}"

definition days :: "obs list \<Rightarrow> value_col \<Rightarrow> date set" where
  "days df c = {d. \<exists>s. first_value df c s d \<noteq> None}"



section \<open>Example inputs\<close>

text \<open>A provider that answers every price query with one day (the start date), an A close of
  100 and an H close of 120, and the rate query with 0.9; it names the day asked for as the
  latest trading day.  A pool of one stock.\<close>

definition example_provider :: provider where
  "example_provider =
     \<lparr>wsd = (\<lambda>codes s e.
        if codes = [exchange_rate_code]
        then \<lparr>ErrorCode = 0, Data = [[Some (Fin (9 / 10))]], Codes = codes, Times = [s]\<rparr>
        else \<lparr>ErrorCode = 0, Data = [[Some (Fin 100)], [Some (Fin 120)]], Codes = codes,
              Times = [s]\<rparr>),
      tdaysoffset = (\<lambda>d. \<lparr>ErrorCode = 0, Data = [[d]], Codes = [], Times = [d]\<rparr>)\<rparr>"

definition example_pool :: "pool_row list" where
  "example_pool = [\<lparr>H_stock_code = ''N.HK'', A_stock_code = ''N.SH'', stock_name = ''N''\<rparr>]"

text \<open>The same provider with a rate of zero.\<close>

definition zero_rate_provider :: provider where
  "zero_rate_provider =
     \<lparr>wsd = (\<lambda>codes s e.
        if codes = [exchange_rate_code]
        then \<lparr>ErrorCode = 0, Data = [[Some (Fin 0)]], Codes = codes, Times = [s]\<rparr>
        else \<lparr>ErrorCode = 0, Data = [[Some (Fin 100)], [Some (Fin 120)]], Codes = codes,
              Times = [s]\<rparr>),
      tdaysoffset = (\<lambda>d. \<lparr>ErrorCode = 0, Data = [[d]], Codes = [], Times = [d]\<rparr>)\<rparr>"

text \<open>A long-frame row as the fetcher builds it from a stock, a day and the three numbers.\<close>

definition mk_obs :: "string \<Rightarrow> date \<Rightarrow> real \<Rightarrow> real \<Rightarrow> real \<Rightarrow> obs" where
  "mk_obs n d a h x =
     \<lparr>H_stock_code = n @ ''.HK'', A_stock_code = n @ ''.SH'', stock_name = n, date = d,
      A_price = Some (Fin a), H_price = Some (Fin h), exchange_rate = Some (Fin x),
      HA_premium_rate = premium (Some (Fin a)) (Some (Fin h)) (Some (Fin x))\<rparr>"


text \<open>Two stocks, the later day belonging to the stock that sorts first.\<close>

definition two_stocks :: "obs list" where
  "two_stocks = [mk_obs ''B'' 738886 10 9 1, mk_obs ''A'' 738887 20 18 1]"

text \<open>A stock and day that occur twice, with A closes 10 and then 99.\<close>

definition repeated :: "obs list" where
  "repeated =
     [mk_obs ''A'' 738886 10 9 1, mk_obs ''A'' 738886 99 9 1, mk_obs ''A'' 738887 11 9 1]"


text \<open>A provider whose answer has two days, the A close being 10 and then 0.\<close>

definition zero_close_provider :: provider where
  "zero_close_provider =
     \<lparr>wsd = (\<lambda>codes s e.
        if codes = [exchange_rate_code]
        then \<lparr>ErrorCode = 0, Data = [[Some (Fin 1), Some (Fin 1)]], Codes = codes,
              Times = [s, e]\<rparr>
        else \<lparr>ErrorCode = 0,
              Data = [[Some (Fin 10), Some (Fin 0)], [Some (Fin 9), Some (Fin 9)]],
              Codes = codes, Times = [s, e]\<rparr>),
      tdaysoffset = (\<lambda>d. \<lparr>ErrorCode = 0, Data = [[d]], Codes = [], Times = [d]\<rparr>)\<rparr>"

text \<open>A provider whose price query fails.\<close>

definition failing_provider :: provider where
  "failing_provider =
     \<lparr>wsd = (\<lambda>codes s e. \<lparr>ErrorCode = - 40520007, Data = [], Codes = [], Times = []\<rparr>),
      tdaysoffset = (\<lambda>d. \<lparr>ErrorCode = 0, Data = [[d]], Codes = [], Times = [d]\<rparr>)\<rparr>"

text \<open>Report files: a complete one whose last day is 738900 (2024-01-15), one that holds the
  premium sheet only, and a complete one whose last day is the last day a timestamp holds.
  Their headers are distinct days and their index labels are stock names, and the reader used
  with them returns a stored sheet as it is and raises for a sheet that is not there.\<close>

definition old_sheet :: sheet where
  "old_sheet =
     \<lparr>columns = [Day 738899, Day 738900], rows = [(Name ''N'', [Some (Fin 1), Some (Fin 2)])]\<rparr>"

definition full_report :: xl_file where
  "full_report = Workbook (map (\<lambda>sh. (sh, old_sheet)) SHEET_NAMES)"

definition partial_report :: xl_file where
  "partial_report = Workbook [(Sheet_premium, old_sheet)]"



definition plain_read :: reader where
  "plain_read f sh =
     (case f of
        Unreadable \<Rightarrow> Inl ValueError
      | Workbook sheets \<Rightarrow>
          (case map_of sheets sh of None \<Rightarrow> Inl ValueError | Some t \<Rightarrow> Inr t))"

text \<open>Runs of the monitor: with no pool; with a provider that fails; on a report that is
  already current; on a report that lacks one day; on the report that holds one sheet only; on
  the report whose last day is the last day a timestamp holds; and a first run with the
  provider that reports a zero A close.\<close>

definition no_pool_env :: env where
  "no_pool_env =
     \<lparr>stock_pool = [], WIND_AVAILABLE = True, wind = example_provider, today = 738901,
      report_file = Some full_report, read_excel = plain_read\<rparr>"

definition failing_env :: env where
  "failing_env =
     \<lparr>stock_pool = example_pool, WIND_AVAILABLE = True, wind = failing_provider, today = 738901,
      report_file = Some full_report, read_excel = plain_read\<rparr>"



definition partial_env :: env where
  "partial_env =
     \<lparr>stock_pool = example_pool, WIND_AVAILABLE = True, wind = example_provider, today = 738901,
      report_file = Some partial_report, read_excel = plain_read\<rparr>"


definition zero_close_env :: env where
  "zero_close_env =
     \<lparr>stock_pool = example_pool, WIND_AVAILABLE = True, wind = zero_close_provider,
      today = 738887, report_file = None, read_excel = plain_read\<rparr>"

section \<open>Properties of the fetcher\<close>

lemma premium_final_data:
  "r \<in> set (final_data pool pl fx) \<Longrightarrow>
   HA_premium_rate r = premium (A_price r) (H_price r) (exchange_rate r)"
  by (auto simp: final_data_def Let_def)

lemma integrate_rows:
  assumes "integrate pool pd xd = Inr df" and "r \<in> set df"
  shows "A_price r \<noteq> None \<and> H_price r \<noteq> None \<and> exchange_rate r \<noteq> None \<and>
         HA_premium_rate r = premium (A_price r) (H_price r) (exchange_rate r)"
  using assms
  by (auto simp: integrate_def sort_values_def dropna_def dates_to_datetime_def
      premium_final_data split: sum.splits if_splits)

lemma fetched_rows:
  assumes "fst (get_ah_premium_data w av pool s e) = Inr df" and "r \<in> set df"
  shows "\<exists>pl pd xd. integrate pl pd xd = Inr df"
  using assms by (auto simp: get_ah_premium_data_def Let_def split: if_splits)

lemma premium_table:
  "premium (Some (Fin a)) (Some (Fin h)) (Some (Fin x)) =
     (if a = 0 then None
      else if x \<noteq> 0 then Some (Fin (h / x / a - 1))
      else if h = 0 then None
      else if (0 < h) = (0 < a) then Some PInf else Some NInf)"
  by (auto simp: premium_def fdiv_def fsub_def)

lemma example_fetch:
  "fst (get_ah_premium_data example_provider True (Some example_pool) 738886 None) =
     Inr [mk_obs ''N'' 738886 100 120 (9 / 10)]"
  by code_simp

lemma zero_rate_fetch:
  "fst (get_ah_premium_data zero_rate_provider True (Some example_pool) 738886 None) =
     Inr [mk_obs ''N'' 738886 100 120 0]"
  by code_simp

text \<open>
  \<^bold>\<open>Claim C1.\<close>  Every row of the frame that \<open>get_ah_premium_data\<close> returns has all
  three of A price, H price and exchange rate present; its premium is null when the A price is
  zero, and otherwise the float expression \<open>H_price / fx_rate / A_price - 1\<close>.  On numbers
  \<open>a\<close>, \<open>h\<close>, \<open>x\<close> the premium column is: null for \<open>a = 0\<close>; the number
  \<open>h / x / a - 1\<close> for a rate other than zero; for a rate of zero, NaN when \<open>h = 0\<close> and
  otherwise an infinity, positive when \<open>h\<close> and \<open>a\<close> have the same sign.  It is null for
  a null or zero A price whatever the other fields are (the unguarded expression is infinite
  at A = 0, H = 1, rate = 1), and is \<open>1/3\<close> for A = 100, H = 120, rate = 0.9.
\<close>

theorem premium_formula_on_output:
  "(fst (get_ah_premium_data w av pool s e) = Inr df \<and> r \<in> set df \<longrightarrow>
      A_price r \<noteq> None \<and> H_price r \<noteq> None \<and> exchange_rate r \<noteq> None
      \<and> HA_premium_rate r =
           (if A_price r = Some (Fin 0) then None
            else fsub (fdiv (fdiv (H_price r) (exchange_rate r)) (A_price r)) (Some (Fin 1))))
   \<and> premium (Some (Fin a)) (Some (Fin h)) (Some (Fin x)) =
       (if a = 0 then None
        else if x \<noteq> 0 then Some (Fin (h / x / a - 1))
        else if h = 0 then None
        else if (0 < h) = (0 < a) then Some PInf else Some NInf)
   \<and> premium None hp fx = None
   \<and> premium (Some (Fin 0)) hp fx = None
   \<and> fsub (fdiv (fdiv (Some (Fin 1)) (Some (Fin 1))) (Some (Fin 0))) (Some (Fin 1)) = Some PInf
   \<and> premium (Some (Fin 100)) (Some (Fin 120)) (Some (Fin (9 / 10))) = Some (Fin (1 / 3))"
proof (intro conjI impI)
  assume h: "fst (get_ah_premium_data w av pool s e) = Inr df \<and> r \<in> set df"
  then obtain pl pd xd where "integrate pl pd xd = Inr df"
    using fetched_rows by blast
  with h have r: "A_price r \<noteq> None \<and> H_price r \<noteq> None \<and> exchange_rate r \<noteq> None \<and>
      HA_premium_rate r = premium (A_price r) (H_price r) (exchange_rate r)"
    using integrate_rows by blast
  then show "A_price r \<noteq> None" "H_price r \<noteq> None" "exchange_rate r \<noteq> None"
    by simp_all
  from r show "HA_premium_rate r =
      (if A_price r = Some (Fin 0) then None
       else fsub (fdiv (fdiv (H_price r) (exchange_rate r)) (A_price r)) (Some (Fin 1)))"
    by (auto simp: premium_def)
next
  show "premium (Some (Fin a)) (Some (Fin h)) (Some (Fin x)) =
       (if a = 0 then None
        else if x \<noteq> 0 then Some (Fin (h / x / a - 1))
        else if h = 0 then None
        else if (0 < h) = (0 < a) then Some PInf else Some NInf)"
    by (rule premium_table)
qed (simp_all add: premium_def fdiv_def fsub_def)

theorem premium_formula_on_output_witness:
  "fst (get_ah_premium_data example_provider True (Some example_pool) 738886 None) =
     Inr [mk_obs ''N'' 738886 100 120 (9 / 10)]
   \<and> HA_premium_rate (mk_obs ''N'' 738886 100 120 (9 / 10)) =
       (if A_price (mk_obs ''N'' 738886 100 120 (9 / 10)) = Some (Fin 0) then None
        else fsub (fdiv (fdiv (H_price (mk_obs ''N'' 738886 100 120 (9 / 10)))
                          (exchange_rate (mk_obs ''N'' 738886 100 120 (9 / 10))))
                    (A_price (mk_obs ''N'' 738886 100 120 (9 / 10))))
               (Some (Fin 1)))
   \<and> HA_premium_rate (mk_obs ''N'' 738886 100 120 (9 / 10)) = Some (Fin (1 / 3))
   \<and> fst (get_ah_premium_data zero_rate_provider True (Some example_pool) 738886 None) =
       Inr [mk_obs ''N'' 738886 100 120 0]
   \<and> HA_premium_rate (mk_obs ''N'' 738886 100 120 0) =
       (if A_price (mk_obs ''N'' 738886 100 120 0) = Some (Fin 0) then None
        else fsub (fdiv (fdiv (H_price (mk_obs ''N'' 738886 100 120 0))
                          (exchange_rate (mk_obs ''N'' 738886 100 120 0)))
                    (A_price (mk_obs ''N'' 738886 100 120 0)))
               (Some (Fin 1)))
   \<and> HA_premium_rate (mk_obs ''N'' 738886 100 120 0) = Some PInf"
proof -
  have a: "HA_premium_rate (mk_obs ''N'' 738886 100 120 (9 / 10)) =
       (if A_price (mk_obs ''N'' 738886 100 120 (9 / 10)) = Some (Fin 0) then None
        else fsub (fdiv (fdiv (H_price (mk_obs ''N'' 738886 100 120 (9 / 10)))
                          (exchange_rate (mk_obs ''N'' 738886 100 120 (9 / 10))))
                    (A_price (mk_obs ''N'' 738886 100 120 (9 / 10))))
               (Some (Fin 1)))"
    using premium_formula_on_output
      [of example_provider True "Some example_pool" 738886 None
        "[mk_obs ''N'' 738886 100 120 (9 / 10)]" "mk_obs ''N'' 738886 100 120 (9 / 10)"]
      example_fetch
    by simp
  have b: "HA_premium_rate (mk_obs ''N'' 738886 100 120 0) =
       (if A_price (mk_obs ''N'' 738886 100 120 0) = Some (Fin 0) then None
        else fsub (fdiv (fdiv (H_price (mk_obs ''N'' 738886 100 120 0))
                          (exchange_rate (mk_obs ''N'' 738886 100 120 0)))
                    (A_price (mk_obs ''N'' 738886 100 120 0)))
               (Some (Fin 1)))"
    using premium_formula_on_output
      [of zero_rate_provider True "Some example_pool" 738886 None
        "[mk_obs ''N'' 738886 100 120 0]" "mk_obs ''N'' 738886 100 120 0"]
      zero_rate_fetch
    by simp
  have c: "HA_premium_rate (mk_obs ''N'' 738886 100 120 (9 / 10)) = Some (Fin (1 / 3))"
    by (simp add: mk_obs_def premium_table)
  have d: "HA_premium_rate (mk_obs ''N'' 738886 100 120 0) = Some PInf"
    by (simp add: mk_obs_def premium_table)
  from a b c d example_fetch zero_rate_fetch show ?thesis by blast
qed

text \<open>
  \<^bold>\<open>Claim C10.\<close>  Whatever the start date, the end date and the provider, a pool argument
  that is \<^verbatim>\<open>None\<close> or an empty frame makes \<open>get_ah_premium_data\<close> return the
  empty frame with no provider call made.
\<close>

theorem empty_pool_no_query:
  "pool = None \<or> pool = Some [] \<longrightarrow>
   get_ah_premium_data w av pool start_date end_date = (Inr [], [])"
  by (simp add: get_ah_premium_data_def)

theorem empty_pool_no_query_witness:
  "get_ah_premium_data example_provider True None 5 (Some 9) = (Inr [], [])
   \<and> get_ah_premium_data example_provider True (Some []) 5 (Some 9) = (Inr [], [])"
  using empty_pool_no_query [of None example_provider True 5 "Some 9"]
    empty_pool_no_query [of "Some []" example_provider True 5 "Some 9"]
  by simp

section \<open>Properties of the pivot\<close>

subsection \<open>De-duplication and aggregation\<close>

lemma find_filter: "find P (filter Q xs) = find (\<lambda>x. Q x \<and> P x) xs"
  by (induction xs) auto

lemma set_drop_duplicates_by: "set (drop_duplicates_by key xs) \<subseteq> set xs"
  by (induction key xs rule: drop_duplicates_by.induct) auto

lemma filter_drop_duplicates_by:
  "filter (\<lambda>r. key r = k) (drop_duplicates_by key xs) =
     (case find (\<lambda>r. key r = k) xs of None \<Rightarrow> [] | Some r \<Rightarrow> [r])"
proof (induction key xs rule: drop_duplicates_by.induct)
  case (1 key)
  then show ?case by simp
next
  case (2 key x xs)
  show ?case
  proof (cases "key x = k")
    case True
    have "filter (\<lambda>r. key r = k) (drop_duplicates_by key (filter (\<lambda>y. key y \<noteq> key x) xs)) = []"
      using set_drop_duplicates_by [of key "filter (\<lambda>y. key y \<noteq> key x) xs"] True
      by (auto simp: filter_empty_conv)
    with True show ?thesis by simp
  next
    case False
    have "find (\<lambda>r. key r = k) (filter (\<lambda>y. key y \<noteq> key x) xs) = find (\<lambda>r. key r = k) xs"
      unfolding find_filter using False by (intro arg_cong2 [where f = find] ext) auto
    with False 2 show ?thesis by simp
  qed
qed

lemma keys_drop_duplicates_by: "key ` set (drop_duplicates_by key xs) = key ` set xs"
  by (induction key xs rule: drop_duplicates_by.induct) auto

lemma fmean_single: "fmean [v] = v"
proof (cases v)
  case None
  then show ?thesis by (simp add: fmean_def non_null_def)
next
  case (Some x)
  then show ?thesis
    by (cases x) (simp_all add: fmean_def non_null_def fsum_def fadd_def fdiv_def)
qed

lemma fmean_Nil: "fmean [] = None"
  by (simp add: fmean_def non_null_def)

lemma find_append:
  "find P (xs @ ys) = (case find P xs of None \<Rightarrow> find P ys | Some x \<Rightarrow> Some x)"
  by (induction xs) auto

lemma map_of_map_filter_Pair:
  "map_of (List.map_filter (\<lambda>k. map_option (Pair k) (f k)) ks) k =
     (if k \<in> set ks then f k else None)"
  by (induction ks) (auto simp: List.map_filter_simps split: option.splits)

lemma first_value_find:
  "first_value df c s d =
     fmean (map (col c) (case find (\<lambda>r. pivot_key r = (s, d)) df of None \<Rightarrow> [] | Some r \<Rightarrow> [r]))"
  by (simp add: first_value_def pivot_key_def fmean_single fmean_Nil split: option.splits)

lemma find_None_not_key:
  "k \<notin> key ` set xs \<Longrightarrow> find (\<lambda>r. key r = k) xs = None"
  by (auto simp: find_None_iff)

lemma map_of_agg_mean:
  "map_of (agg_mean (drop_duplicates df) c) (s, d) = first_value df c s d"
proof -
  let ?dd = "drop_duplicates df"
  have keys: "set (sort (remdups (map pivot_key ?dd))) = pivot_key ` set df"
    by (simp add: drop_duplicates_def keys_drop_duplicates_by)
  have grp: "fmean (map (col c) (filter (\<lambda>r. pivot_key r = (s, d)) ?dd)) = first_value df c s d"
    by (simp add: drop_duplicates_def filter_drop_duplicates_by first_value_find)
  have none: "(s, d) \<notin> pivot_key ` set df \<Longrightarrow> first_value df c s d = None"
    by (simp add: first_value_find find_None_not_key fmean_Nil)
  show ?thesis
    unfolding agg_mean_def map_of_map_filter_Pair keys grp using none by simp
qed

lemma keys_agg_mean:
  "fst ` set (agg_mean (drop_duplicates df) c) = {(s, d). first_value df c s d \<noteq> None}"
proof -
  have "k \<in> fst ` set (agg_mean (drop_duplicates df) c) \<longleftrightarrow> first_value df c (fst k) (snd k) \<noteq> None" for k
    using map_of_agg_mean [of df c "fst k" "snd k"]
      map_of_eq_None_iff [of "agg_mean (drop_duplicates df) c" k]
    by auto
  then show ?thesis by (auto simp: image_iff) force
qed

lemma stocks_image: "set (map (fst \<circ> fst) (agg_mean (drop_duplicates df) c)) = stocks df c"
  unfolding stocks_def set_map image_comp [symmetric] keys_agg_mean by force

lemma days_image: "set (map (snd \<circ> fst) (agg_mean (drop_duplicates df) c)) = days df c"
  unfolding days_def set_map image_comp [symmetric] keys_agg_mean by force

lemma finite_stocks: "finite (stocks df c)" unfolding stocks_image [symmetric] by simp
lemma finite_days: "finite (days df c)" unfolding days_image [symmetric] by simp

lemma create_pivot_table_eq:
  "create_pivot_table df c =
     \<lparr>columns = map Day (sorted_list_of_set (days df c)),
      rows = map (\<lambda>s. (s, map (first_value df c s) (sorted_list_of_set (days df c))))
               (sorted_list_of_set (stocks df c))\<rparr>"
  unfolding create_pivot_table_def pivot_table_def unstack_def Let_def
      sorted_list_of_set_sort_remdups [symmetric] stocks_image days_image
  by (simp add: map_of_agg_mean)


lemma first_value_window:
  "first_value (window lo hi df) c s d = (if lo \<le> d \<and> d \<le> hi then first_value df c s d else None)"
proof (cases "lo \<le> d \<and> d \<le> hi")
  case True
  then have "find (\<lambda>x. (lo \<le> date x \<and> date x \<le> hi) \<and> stock_name x = s \<and> date x = d) df =
      find (\<lambda>r. stock_name r = s \<and> date r = d) df"
    by (intro find_cong) auto
  with True show ?thesis by (simp only: first_value_def window_def find_filter simp_thms if_True)
next
  case False
  then have "find (\<lambda>x. (lo \<le> date x \<and> date x \<le> hi) \<and> stock_name x = s \<and> date x = d) df = None"
    by (auto simp: find_None_iff)
  with False show ?thesis by (simp only: first_value_def window_def find_filter if_False option.case simp_thms)
qed

lemma map_of_graph: "map_of (map (\<lambda>s. (s, f s)) xs) s = (if s \<in> set xs then Some (f s) else None)"
  by (induction xs) auto

lemma first_value_not_stock: "s \<notin> stocks df c \<Longrightarrow> first_value df c s d = None"
  by (auto simp: stocks_def)

lemma first_value_not_day: "d \<notin> days df c \<Longrightarrow> first_value df c s d = None"
  by (auto simp: days_def)

lemma index_create_pivot_table: "index (create_pivot_table df c) = sorted_list_of_set (stocks df c)"
  by (simp add: create_pivot_table_eq index_def comp_def)

lemma columns_create_pivot_table:
  "columns (create_pivot_table df c) = map Day (sorted_list_of_set (days df c))"
  by (simp add: create_pivot_table_eq)

lemma row_of_create_pivot_table:
  "row_of (create_pivot_table df c) s = map (first_value df c s) (sorted_list_of_set (days df c))"
proof (cases "s \<in> stocks df c")
  case True
  then show ?thesis by (simp add: create_pivot_table_eq row_of_def map_of_graph finite_stocks)
next
  case False
  then have "map (first_value df c s) (sorted_list_of_set (days df c)) =
      replicate (length (sorted_list_of_set (days df c))) None"
    by (simp add: first_value_not_stock list_eq_iff_nth_eq)
  with False show ?thesis by (simp add: create_pivot_table_eq row_of_def map_of_graph finite_stocks)
qed

lemma cell_graph:
  "cell \<lparr>columns = map Day ds, rows = map (\<lambda>s. (s, map (g s) ds)) ix\<rparr> s l =
     (case l of Day d \<Rightarrow> (if s \<in> set ix \<and> d \<in> set ds then g s d else None) | Text x \<Rightarrow> None)"
proof -
  have z: "zip (map Day ds) (map (g s) ds) = map (\<lambda>d. (Day d, g s d)) ds"
    by (induction ds) auto
  have "map_of (map (\<lambda>d. (Day d, g s d)) ds) l =
      (case l of Day d \<Rightarrow> (if d \<in> set ds then Some (g s d) else None) | Text x \<Rightarrow> None)"
    by (induction ds) (auto split: label.splits)
  then show ?thesis by (simp add: cell_def map_of_graph z split: label.splits)
qed

lemma cell_create_pivot_table:
  "cell (create_pivot_table df c) s l = (case l of Day d \<Rightarrow> first_value df c s d | Text x \<Rightarrow> None)"
  using first_value_not_stock [of s df c] first_value_not_day [of _ df c s]
  by (auto simp: create_pivot_table_eq cell_graph finite_stocks finite_days split: label.splits)

lemma zip_rows:
  "map (\<lambda>((s, u), (s', v)). (s, u @ v)) (zip (map (\<lambda>s. (s, f s)) xs) (map (\<lambda>s. (s, g s)) xs)) =
     map (\<lambda>s. (s, f s @ g s)) xs"
  by (induction xs) auto

lemma pd_concat_pivots:
  "pd_concat (create_pivot_table a c) (create_pivot_table b c) =
     Inr \<lparr>columns = columns (create_pivot_table a c) @ columns (create_pivot_table b c),
          rows = map (\<lambda>s. (s, row_of (create_pivot_table a c) s @ row_of (create_pivot_table b c) s))
                   (index (create_pivot_table a c) @
                    filter (\<lambda>s. s \<notin> set (index (create_pivot_table a c))) (index (create_pivot_table b c)))\<rparr>"
proof (cases "index (create_pivot_table a c) = index (create_pivot_table b c)")
  case False
  then show ?thesis
    by (simp add: pd_concat_def index_create_pivot_table)
next
  case True
  then have st: "sorted_list_of_set (stocks a c) = sorted_list_of_set (stocks b c)"
    by (simp add: index_create_pivot_table)
  have ra: "rows (create_pivot_table a c) =
      map (\<lambda>s. (s, row_of (create_pivot_table a c) s)) (sorted_list_of_set (stocks b c))"
    unfolding row_of_create_pivot_table by (simp add: create_pivot_table_eq st)
  have rb: "rows (create_pivot_table b c) =
      map (\<lambda>s. (s, row_of (create_pivot_table b c) s)) (sorted_list_of_set (stocks b c))"
    unfolding row_of_create_pivot_table by (simp add: create_pivot_table_eq)
  have "map (\<lambda>((s, u), (s', v)). (s, u @ v)) (zip (rows (create_pivot_table a c)) (rows (create_pivot_table b c)))
      = map (\<lambda>s. (s, row_of (create_pivot_table a c) s @ row_of (create_pivot_table b c) s))
          (sorted_list_of_set (stocks b c))"
    unfolding ra rb zip_rows ..
  with True show ?thesis
    by (simp add: pd_concat_def index_create_pivot_table st)
qed


lemma days_window: "days (window lo hi df) c = {d \<in> days df c. lo \<le> d \<and> d \<le> hi}"
  by (auto simp: days_def first_value_window split: if_splits)

lemma stocks_window:
  "stocks (window lo hi df) c = {s. \<exists>d. lo \<le> d \<and> d \<le> hi \<and> first_value df c s d \<noteq> None}"
  by (auto simp: stocks_def first_value_window split: if_splits)

lemma sorted_list_of_set_split:
  fixes A B :: "int set"
  assumes "finite A" "finite B" "\<forall>a\<in>A. \<forall>b\<in>B. a < b"
  shows "sorted_list_of_set A @ sorted_list_of_set B = sorted_list_of_set (A \<union> B)"
proof -
  have "sorted (sorted_list_of_set A @ sorted_list_of_set B)"
    using assms by (auto simp: sorted_append less_imp_le)
  moreover have "distinct (sorted_list_of_set A @ sorted_list_of_set B)"
    using assms by auto
  moreover have "set (sorted_list_of_set A @ sorted_list_of_set B) = A \<union> B"
    using assms by simp
  ultimately show ?thesis
    using sorted_list_of_set.idem_if_sorted_distinct
      [of "sorted_list_of_set A @ sorted_list_of_set B"] by simp
qed

lemma merged_columns:
  assumes "d1 \<le> d2 + 1" "d2 \<le> d3"
  shows "sorted_list_of_set (days (window d1 d2 df) c) @ sorted_list_of_set (days (window (d2 + 1) d3 df) c)
       = sorted_list_of_set (days (window d1 d3 df) c)"
proof -
  have "days (window d1 d2 df) c \<union> days (window (d2 + 1) d3 df) c = days (window d1 d3 df) c"
    using assms by (auto simp: days_window)
  moreover have "\<forall>a\<in>days (window d1 d2 df) c. \<forall>b\<in>days (window (d2 + 1) d3 df) c. a < b"
    by (auto simp: days_window)
  ultimately show ?thesis
    using sorted_list_of_set_split [of "days (window d1 d2 df) c" "days (window (d2 + 1) d3 df) c"]
    by (simp add: finite_days)
qed

lemma merged_row:
  assumes "d1 \<le> d2 + 1" "d2 \<le> d3"
  shows "row_of (create_pivot_table (window d1 d2 df) c) s @
         row_of (create_pivot_table (window (d2 + 1) d3 df) c) s
       = map (first_value (window d1 d3 df) c s) (sorted_list_of_set (days (window d1 d3 df) c))"
proof -
  have a: "map (first_value (window d1 d2 df) c s) (sorted_list_of_set (days (window d1 d2 df) c))
      = map (first_value (window d1 d3 df) c s) (sorted_list_of_set (days (window d1 d2 df) c))"
    using assms by (auto simp: finite_days days_window first_value_window)
  have b: "map (first_value (window (d2 + 1) d3 df) c s) (sorted_list_of_set (days (window (d2 + 1) d3 df) c))
      = map (first_value (window d1 d3 df) c s) (sorted_list_of_set (days (window (d2 + 1) d3 df) c))"
    using assms by (auto simp: finite_days days_window first_value_window)
  show ?thesis
    unfolding row_of_create_pivot_table a b map_append [symmetric] merged_columns [OF assms] ..
qed

lemma merged_stocks:
  assumes "d1 \<le> d2 + 1" "d2 \<le> d3"
  shows "stocks (window d1 d2 df) c \<union> stocks (window (d2 + 1) d3 df) c = stocks (window d1 d3 df) c"
proof -
  have "(d1 \<le> d \<and> d \<le> d2) \<or> (d2 + 1 \<le> d \<and> d \<le> d3) \<longleftrightarrow> d1 \<le> d \<and> d \<le> d3" for d
    using assms by auto
  then show ?thesis unfolding stocks_window by blast
qed


text \<open>
  \<^bold>\<open>Claim C6.\<close>  In a long frame \<open>pre @ r # rest\<close> where \<open>r\<close> is the first row
  with stock \<open>s\<close> and day \<open>d\<close>, the pivot's cell at \<open>(s, d)\<close> is the value of
  \<open>r\<close>, whatever values later rows with the same stock and day carry; and when that value
  is not null the pivot has the row \<open>s\<close> and the column \<open>d\<close>.
\<close>

theorem pivot_keeps_first:
  "pivot_key r = (s, d) \<and> (\<forall>x\<in>set pre. pivot_key x \<noteq> (s, d)) \<longrightarrow>
     cell (create_pivot_table (pre @ r # rest) c) s (Day d) = col c r
     \<and> (col c r \<noteq> None \<longrightarrow>
          s \<in> set (index (create_pivot_table (pre @ r # rest) c))
          \<and> Day d \<in> set (columns (create_pivot_table (pre @ r # rest) c)))"
proof (intro impI)
  assume a: "pivot_key r = (s, d) \<and> (\<forall>x\<in>set pre. pivot_key x \<noteq> (s, d))"
  then have "find (\<lambda>x. stock_name x = s \<and> date x = d) pre = None"
    by (auto simp: find_None_iff pivot_key_def)
  with a have "find (\<lambda>x. stock_name x = s \<and> date x = d) (pre @ r # rest) = Some r"
    by (simp add: find_append pivot_key_def)
  then have fv: "first_value (pre @ r # rest) c s d = col c r"
    by (simp add: first_value_def)
  have nn: "col c r \<noteq> None \<Longrightarrow> first_value (pre @ r # rest) c s d \<noteq> None"
    using fv by simp
  have "col c r \<noteq> None \<Longrightarrow> s \<in> stocks (pre @ r # rest) c \<and> d \<in> days (pre @ r # rest) c"
    using nn unfolding stocks_def days_def by blast
  then show "cell (create_pivot_table (pre @ r # rest) c) s (Day d) = col c r
     \<and> (col c r \<noteq> None \<longrightarrow>
          s \<in> set (index (create_pivot_table (pre @ r # rest) c))
          \<and> Day d \<in> set (columns (create_pivot_table (pre @ r # rest) c)))"
    using fv
    by (simp add: cell_create_pivot_table index_create_pivot_table columns_create_pivot_table
        finite_stocks finite_days)
qed

theorem pivot_keeps_first_witness:
  "cell (create_pivot_table repeated Col_A_price) ''A'' (Day 738886) = Some (Fin 10)
   \<and> ''A'' \<in> set (index (create_pivot_table repeated Col_A_price))
   \<and> Day 738886 \<in> set (columns (create_pivot_table repeated Col_A_price))"
  using pivot_keeps_first
    [of "mk_obs ''A'' 738886 10 9 1" "''A''" 738886 "[]"
      "[mk_obs ''A'' 738886 99 9 1, mk_obs ''A'' 738887 11 9 1]" Col_A_price]
  by (simp add: repeated_def mk_obs_def pivot_key_def)

lemma find_as_filter: "find P xs = (case filter P xs of [] \<Rightarrow> None | x # ys \<Rightarrow> Some x)"
  by (induction xs) auto

lemma find_drop_duplicates_by:
  "find (\<lambda>r. key r = k) (drop_duplicates_by key xs) = find (\<lambda>r. key r = k) xs"
  by (simp add: find_as_filter [of _ "drop_duplicates_by key xs"] filter_drop_duplicates_by
      split: option.splits)

lemma first_value_drop_duplicates:
  "first_value (drop_duplicates df) c s d = first_value df c s d"
proof -
  have "(\<lambda>r. stock_name r = s \<and> date r = d) = (\<lambda>r. pivot_key r = (s, d))"
    by (auto simp: pivot_key_def)
  then show ?thesis
    by (simp add: first_value_def drop_duplicates_def find_drop_duplicates_by)
qed

lemma create_pivot_table_drop_duplicates:
  "create_pivot_table (drop_duplicates df) c = create_pivot_table df c"
  by (simp add: create_pivot_table_eq stocks_def days_def first_value_drop_duplicates)

text \<open>
  \<^bold>\<open>Claim C9.\<close>  Calling \<open>create_pivot_table\<close> on a long frame and then again on the
  frame that the first call left gives the same wide table both times: the call leaves the
  frame as it was passed in, and the table is a function of the frame.  Pivoting the frame
  after a de-duplication of its own gives that table again.
\<close>

theorem pivot_twice_same:
  "(case call_create_pivot_table df c of
      (t1, df1) \<Rightarrow>
        (case call_create_pivot_table df1 c of
           (t2, df2) \<Rightarrow> t1 = t2 \<and> df1 = df \<and> df2 = df \<and> t1 = create_pivot_table df c))
   \<and> create_pivot_table (drop_duplicates df) c = create_pivot_table df c"
  by (simp add: call_create_pivot_table_def create_pivot_table_drop_duplicates)

theorem pivot_twice_same_witness:
  "fst (call_create_pivot_table repeated Col_A_price) =
     fst (call_create_pivot_table (snd (call_create_pivot_table repeated Col_A_price)) Col_A_price)
   \<and> fst (call_create_pivot_table repeated Col_A_price) =
       \<lparr>columns = [Day 738886, Day 738887],
        rows = [(''A'', [Some (Fin 10), Some (Fin 11)])]\<rparr>"
proof -
  have e: "create_pivot_table repeated Col_A_price =
      \<lparr>columns = [Day 738886, Day 738887],
        rows = [(''A'', [Some (Fin 10), Some (Fin 11)])]\<rparr>"
    by code_simp
  have "fst (call_create_pivot_table repeated Col_A_price) =
     fst (call_create_pivot_table (snd (call_create_pivot_table repeated Col_A_price)) Col_A_price)
   \<and> fst (call_create_pivot_table repeated Col_A_price) = create_pivot_table repeated Col_A_price"
    using pivot_twice_same [of repeated Col_A_price] unfolding case_prod_beta by blast
  then show ?thesis unfolding e .
qed

subsection \<open>The columns of the four sheets\<close>

text \<open>For a long frame as the fetcher returns it (A price, H price and rate present in every
  row) the three price sheets have the same columns, the days of the frame in ascending order,
  and the columns of the premium sheet are among them.\<close>

lemma first_value_full:
  assumes "\<forall>r\<in>set df. col c r \<noteq> None"
  shows "first_value df c s d \<noteq> None \<longleftrightarrow> (s, d) \<in> pivot_key ` set df"
proof
  assume "first_value df c s d \<noteq> None"
  then obtain r where "find (\<lambda>r. stock_name r = s \<and> date r = d) df = Some r"
    by (auto simp: first_value_def split: option.splits)
  then show "(s, d) \<in> pivot_key ` set df"
    by (force simp: find_Some_iff pivot_key_def)
next
  assume "(s, d) \<in> pivot_key ` set df"
  then have "find (\<lambda>r. stock_name r = s \<and> date r = d) df \<noteq> None"
    by (auto simp: find_None_iff pivot_key_def)
  then obtain r where f: "find (\<lambda>r. stock_name r = s \<and> date r = d) df = Some r" by auto
  then have "r \<in> set df" by (auto simp: find_Some_iff)
  with assms f show "first_value df c s d \<noteq> None" by (simp add: first_value_def)
qed

lemma days_full: "\<forall>r\<in>set df. col c r \<noteq> None \<Longrightarrow> days df c = date ` set df"
  unfolding days_def using first_value_full [of df c] by (force simp: pivot_key_def)

lemma stocks_full: "\<forall>r\<in>set df. col c r \<noteq> None \<Longrightarrow> stocks df c = stock_name ` set df"
  unfolding stocks_def using first_value_full [of df c] by (force simp: pivot_key_def)

lemma days_subset: "days df c \<subseteq> date ` set df"
proof
  fix d assume "d \<in> days df c"
  then obtain s r where "find (\<lambda>r. stock_name r = s \<and> date r = d) df = Some r"
    by (auto simp: days_def first_value_def split: option.splits)
  then show "d \<in> date ` set df" by (force simp: find_Some_iff)
qed

lemma price_sheets_agree:
  assumes "\<forall>r\<in>set df. A_price r \<noteq> None \<and> H_price r \<noteq> None \<and> exchange_rate r \<noteq> None"
  shows "columns (create_pivot_table df Col_A_price) = map Day (sorted_list_of_set (date ` set df))"
    and "columns (create_pivot_table df Col_H_price) = map Day (sorted_list_of_set (date ` set df))"
    and "columns (create_pivot_table df Col_exchange_rate) =
           map Day (sorted_list_of_set (date ` set df))"
    and "set (columns (create_pivot_table df Col_HA_premium_rate))
           \<subseteq> set (columns (create_pivot_table df Col_A_price))"
proof -
  have a: "days df Col_A_price = date ` set df" using assms by (intro days_full) simp
  have h: "days df Col_H_price = date ` set df" using assms by (intro days_full) simp
  have x: "days df Col_exchange_rate = date ` set df" using assms by (intro days_full) simp
  show "columns (create_pivot_table df Col_A_price) = map Day (sorted_list_of_set (date ` set df))"
    by (simp add: columns_create_pivot_table a)
  show "columns (create_pivot_table df Col_H_price) = map Day (sorted_list_of_set (date ` set df))"
    by (simp add: columns_create_pivot_table h)
  show "columns (create_pivot_table df Col_exchange_rate) =
      map Day (sorted_list_of_set (date ` set df))"
    by (simp add: columns_create_pivot_table x)
  show "set (columns (create_pivot_table df Col_HA_premium_rate))
      \<subseteq> set (columns (create_pivot_table df Col_A_price))"
    using days_subset [of df Col_HA_premium_rate]
    by (simp add: columns_create_pivot_table a finite_days image_mono)
qed

text \<open>
  \<^bold>\<open>Claim C7\<close> is not kept by the code.  A first run in which the provider reports an A close of
  10 on the first day and 0 on the second saves a premium sheet with the first day only, next to
  three price sheets with both days: the premium of the second day is null, and the pivot
  drops a day on which every value is null.
\<close>

theorem premium_sheet_drops_null_day:
  "main zero_close_env =
     \<lparr>outcome = Saved,
      queries = [TDaysOffset 738887, WSD [''N.SH'', ''N.HK''] 738886 738887,
                 WSD [''HKDCNYFIX.HKS''] 738886 738887],
      file_after = Some (Workbook
        [(Sheet_premium,
            \<lparr>columns = [Day 738886], rows = [(Name ''N'', [Some (Fin (- (1 / 10)))])]\<rparr>),
         (Sheet_A_close,
            \<lparr>columns = [Day 738886, Day 738887],
             rows = [(Name ''N'', [Some (Fin 10), Some (Fin 0)])]\<rparr>),
         (Sheet_H_close,
            \<lparr>columns = [Day 738886, Day 738887],
             rows = [(Name ''N'', [Some (Fin 9), Some (Fin 9)])]\<rparr>),
         (Sheet_rate,
            \<lparr>columns = [Day 738886, Day 738887],
             rows = [(Name ''N'', [Some (Fin 1), Some (Fin 1)])]\<rparr>)])\<rparr>"
  by code_simp

subsection \<open>Merging two windows\<close>

lemma cells_of_pivot:
  "map (cell (create_pivot_table df c) s) (columns (create_pivot_table df c)) =
     map (first_value df c s) (sorted_list_of_set (days df c))"
  by (simp add: columns_create_pivot_table cell_create_pivot_table comp_def)

text \<open>
  \<^bold>\<open>Claim C2\<close>, as stated, fails on the code: the merged table lists the old table's stocks
  first and the new stocks after them, while the direct pivot lists the stocks in ascending
  order.  For \<open>two_stocks\<close>, split after its first day, the merged rows are B, A and the
  direct rows are A, B.
\<close>

theorem merge_row_order_counterexample:
  "distinct (map pivot_key two_stocks) \<and>
   pd_concat (create_pivot_table (window 738886 738886 two_stocks) Col_A_price)
      (create_pivot_table (window (738886 + 1) 738887 two_stocks) Col_A_price)
     \<noteq> Inr (create_pivot_table (window 738886 738887 two_stocks) Col_A_price)"
  by code_simp

text \<open>
  \<^bold>\<open>Claim C2, amended.\<close>  For every long frame (with or without repeated stock and day)
  and every split day \<open>d2\<close> of the range \<open>[d1, d3]\<close>, concatenating the pivot of the
  rows in \<open>[d1, d2]\<close> with the pivot of the rows in \<open>[d2 + 1, d3]\<close> succeeds, and the
  result has the columns of the pivot of the rows in \<open>[d1, d3]\<close> in the same order, the
  same set of stocks as rows, each once, and the same value in every cell.  Its rows are the
  stocks of the old table in the old table's order, followed by the stocks of the new table
  that the old one lacks in the new table's order, and the row of a stock holds the cells that
  the direct pivot has for that stock, column by column.  The two tables are equal exactly when
  the merged rows happen to be in ascending order of stock name.
\<close>

theorem merge_equals_full_pivot:
  assumes "d1 \<le> d2 + 1" and "d2 \<le> d3"
  shows "\<exists>t. pd_concat (create_pivot_table (window d1 d2 df) c)
                (create_pivot_table (window (d2 + 1) d3 df) c) = Inr t
     \<and> columns t = columns (create_pivot_table (window d1 d3 df) c)
     \<and> distinct (index t)
     \<and> set (index t) = set (index (create_pivot_table (window d1 d3 df) c))
     \<and> (\<forall>s l. cell t s l = cell (create_pivot_table (window d1 d3 df) c) s l)
     \<and> (t = create_pivot_table (window d1 d3 df) c \<longleftrightarrow> sorted (index t))
     \<and> index t =
         index (create_pivot_table (window d1 d2 df) c) @
         filter (\<lambda>s. s \<notin> set (index (create_pivot_table (window d1 d2 df) c)))
           (index (create_pivot_table (window (d2 + 1) d3 df) c))
     \<and> rows t =
         map (\<lambda>s. (s, map (cell (create_pivot_table (window d1 d3 df) c) s)
                         (columns (create_pivot_table (window d1 d3 df) c))))
           (index t)"
proof -
  let ?A = "create_pivot_table (window d1 d2 df) c"
  let ?B = "create_pivot_table (window (d2 + 1) d3 df) c"
  let ?F = "create_pivot_table (window d1 d3 df) c"
  let ?ds = "sorted_list_of_set (days (window d1 d3 df) c)"
  let ?ix = "index ?A @ filter (\<lambda>s. s \<notin> set (index ?A)) (index ?B)"
  let ?t = "\<lparr>columns = map Day ?ds,
             rows = map (\<lambda>s. (s, map (first_value (window d1 d3 df) c s) ?ds)) ?ix\<rparr>"
  have cat: "pd_concat ?A ?B = Inr ?t"
    unfolding pd_concat_pivots merged_row [OF assms]
    by (simp add: columns_create_pivot_table map_append [symmetric] merged_columns [OF assms]
        del: map_append)
  have ix: "index ?t = ?ix" by (simp add: index_def comp_def)
  have dist: "distinct ?ix" by (auto simp: index_create_pivot_table)
  have set_ix: "set ?ix = stocks (window d1 d3 df) c"
    using merged_stocks [OF assms, of df c] by (auto simp: index_create_pivot_table finite_stocks)
  have cells: "cell ?t s l = cell ?F s l" for s l
    unfolding cell_graph create_pivot_table_eq [of "window d1 d3 df"] set_ix
    by (cases l) (simp_all add: finite_stocks)
  have eq: "?t = ?F \<longleftrightarrow> sorted ?ix"
  proof
    assume "?t = ?F"
    then have "index ?t = index ?F" by simp
    then show "sorted ?ix" unfolding ix by (simp add: index_create_pivot_table)
  next
    assume "sorted ?ix"
    then have "sorted_list_of_set (set ?ix) = ?ix"
      using dist sorted_list_of_set.idem_if_sorted_distinct [of ?ix] by simp
    then have "?ix = sorted_list_of_set (stocks (window d1 d3 df) c)" unfolding set_ix by simp
    then show "?t = ?F" unfolding create_pivot_table_eq [of "window d1 d3 df"] by simp
  qed
  have rws: "rows ?t = map (\<lambda>s. (s, map (cell ?F s) (columns ?F))) ?ix"
    unfolding cells_of_pivot by simp
  show ?thesis
  proof (intro exI [of _ ?t] conjI allI)
    show "pd_concat ?A ?B = Inr ?t" by (rule cat)
    show "columns ?t = columns ?F" by (simp add: columns_create_pivot_table)
    show "distinct (index ?t)" using dist by (simp only: ix)
    have "set (index ?t) = stocks (window d1 d3 df) c" using set_ix by (simp only: ix)
    moreover have "set (index ?F) = stocks (window d1 d3 df) c"
      by (simp add: index_create_pivot_table finite_stocks)
    ultimately show "set (index ?t) = set (index ?F)" by (simp only:)
    show "cell ?t s l = cell ?F s l" for s l by (rule cells)
    show "?t = ?F \<longleftrightarrow> sorted (index ?t)" using eq by (simp only: ix)
    show "index ?t = ?ix" by (rule ix)
    show "rows ?t = map (\<lambda>s. (s, map (cell ?F s) (columns ?F))) (index ?t)"
      using rws by (simp only: ix)
  qed
qed

theorem merge_equals_full_pivot_witness:
  "(738886 :: int) \<le> 738886 + 1 \<and> (738886 :: int) \<le> 738887 \<and>
   (\<exists>t. pd_concat (create_pivot_table (window 738886 738886 two_stocks) Col_A_price)
           (create_pivot_table (window (738886 + 1) 738887 two_stocks) Col_A_price) = Inr t
     \<and> columns t = columns (create_pivot_table (window 738886 738887 two_stocks) Col_A_price)
     \<and> distinct (index t)
     \<and> set (index t) =
         set (index (create_pivot_table (window 738886 738887 two_stocks) Col_A_price))
     \<and> (\<forall>s l. cell t s l =
           cell (create_pivot_table (window 738886 738887 two_stocks) Col_A_price) s l)
     \<and> (t = create_pivot_table (window 738886 738887 two_stocks) Col_A_price
          \<longleftrightarrow> sorted (index t))
     \<and> index t = [''B'', ''A'']
     \<and> rows t = [(''B'', [Some (Fin 10), None]), (''A'', [None, Some (Fin 20)])])"
proof -
  let ?A = "create_pivot_table (window 738886 738886 two_stocks) Col_A_price"
  let ?B = "create_pivot_table (window (738886 + 1) 738887 two_stocks) Col_A_price"
  let ?F = "create_pivot_table (window 738886 738887 two_stocks) Col_A_price"
  have ix: "index ?A @ filter (\<lambda>s. s \<notin> set (index ?A)) (index ?B) = [''B'', ''A'']"
    by code_simp
  have rw: "map (\<lambda>s. (s, map (cell ?F s) (columns ?F))) [''B'', ''A''] =
      [(''B'', [Some (Fin 10), None]), (''A'', [None, Some (Fin 20)])]"
    by code_simp
  obtain t where t: "pd_concat ?A ?B = Inr t"
    "columns t = columns ?F" "distinct (index t)" "set (index t) = set (index ?F)"
    "\<forall>s l. cell t s l = cell ?F s l" "t = ?F \<longleftrightarrow> sorted (index t)"
    "index t = index ?A @ filter (\<lambda>s. s \<notin> set (index ?A)) (index ?B)"
    "rows t = map (\<lambda>s. (s, map (cell ?F s) (columns ?F))) (index t)"
    using merge_equals_full_pivot [of 738886 738886 738887 two_stocks Col_A_price] by auto
  have i: "index t = [''B'', ''A'']" using t(7) ix by (simp only:)
  have r: "rows t = [(''B'', [Some (Fin 10), None]), (''A'', [None, Some (Fin 20)])]"
    using t(8) rw by (simp only: i)
  have a: "(738886 :: int) \<le> 738886 + 1" "(738886 :: int) \<le> 738887" by simp_all
  show ?thesis
    using a t(1-6) i r by blast
qed

section \<open>Properties of the monitor run\<close>

lemma fetch_and_save_empty:
  assumes "fst (get_ah_premium_data (wind e) (WIND_AVAILABLE e) (Some (stock_pool e)) s (Some (today e))) = Inr []"
  shows "outcome (fetch_and_save e s ex qs) = NoNewData \<and> file_after (fetch_and_save e s ex qs) = report_file e"
  using assms by (cases "get_ah_premium_data (wind e) (WIND_AVAILABLE e) (Some (stock_pool e)) s (Some (today e))")
    (simp add: fetch_and_save_def)

lemma fetch_and_save_unsaved:
  "outcome (fetch_and_save e s ex qs) \<noteq> Saved \<Longrightarrow> file_after (fetch_and_save e s ex qs) = report_file e"
  by (auto simp: fetch_and_save_def Let_def split: prod.splits sum.splits if_splits)

lemma main_unsaved:
  "outcome (main e) \<noteq> Saved \<Longrightarrow> file_after (main e) = report_file e"
  by (auto simp: main_def Let_def fetch_and_save_unsaved split: prod.splits if_splits)







text \<open>
  \<^bold>\<open>Claim C3.\<close>  A run whose stock pool is empty ends at once, with no provider call and
  the report file as it was.  A run in which the price fetch (from the start date the run
  computes, to today) returns the empty frame does not reach the writer: it does not end as
  saved and the report file is as it was.
\<close>

theorem empty_results_leave_file:
  "(stock_pool e = [] \<longrightarrow>
      main e = \<lparr>outcome = NoStockPool, queries = [], file_after = report_file e\<rparr>)
   \<and> (fst (get_ah_premium_data (wind e) (WIND_AVAILABLE e) (Some (stock_pool e))
             (fst (check_existing (read_excel e) (report_file e))) (Some (today e))) = Inr [] \<longrightarrow>
        outcome (main e) \<noteq> Saved \<and> file_after (main e) = report_file e)"
proof (intro conjI impI)
  assume "stock_pool e = []"
  then show "main e = \<lparr>outcome = NoStockPool, queries = [], file_after = report_file e\<rparr>"
    by (simp add: main_def)
next
  assume a: "fst (get_ah_premium_data (wind e) (WIND_AVAILABLE e) (Some (stock_pool e))
             (fst (check_existing (read_excel e) (report_file e))) (Some (today e))) = Inr []"
  show "outcome (main e) \<noteq> Saved"
    using fetch_and_save_empty [OF a]
    by (auto simp: main_def Let_def split: prod.splits if_splits)
  then show "file_after (main e) = report_file e" by (rule main_unsaved)
qed

theorem empty_results_leave_file_witness:
  "main no_pool_env =
     \<lparr>outcome = NoStockPool, queries = [], file_after = Some full_report\<rparr>
   \<and> outcome (main failing_env) \<noteq> Saved
   \<and> file_after (main failing_env) = Some full_report"
proof -
  have "fst (get_ah_premium_data (wind failing_env) (WIND_AVAILABLE failing_env)
      (Some (stock_pool failing_env))
      (fst (check_existing (read_excel failing_env) (report_file failing_env)))
      (Some (today failing_env))) = Inr []"
    by code_simp
  then show ?thesis
    using empty_results_leave_file [of no_pool_env] empty_results_leave_file [of failing_env]
    by (simp add: no_pool_env_def failing_env_def)
qed

text \<open>A read that fails before the start date is assigned (the premium sheet does not read,
  has no column, has a last header that is not a date a timestamp holds, or has as its last
  day the last day a timestamp holds) leaves the default start date and no old sheets.\<close>

lemma early_read_failure:
  assumes "isl (rd f Sheet_premium)
     \<or> (\<exists>t. rd f Sheet_premium = Inr t \<and>
           (columns t = [] \<or> isl (to_datetime (last (columns t)))
            \<or> last (columns t) = Day TIMESTAMP_MAX_DAY))"
  shows "check_existing rd (Some f) = (DEFAULT_START, [])"
  using assms
  by (auto simp: check_existing_def SHEET_NAMES_def add_one_day_def to_datetime_def
      in_timestamp_range_def TIMESTAMP_MIN_DAY_def TIMESTAMP_MAX_DAY_def split: sum.splits)




text \<open>
  \<^bold>\<open>Claim C4\<close> is not kept by the code.  When the premium sheet of the existing report reads
  and a later sheet does not, the handler empties \<^verbatim>\<open>existing_data\<close> but the start date
  stays the day after the premium sheet's last day: the run fetches from that day, not from the
  default start date, and saves a report with the new days only.
\<close>

theorem partial_read_keeps_late_start:
  "check_existing plain_read (Some partial_report) = (738900 + 1, [])
   \<and> DEFAULT_START = 738886
   \<and> main partial_env =
       \<lparr>outcome = Saved,
        queries = [TDaysOffset 738901, WSD [''N.SH'', ''N.HK''] 738901 738901,
                   WSD [''HKDCNYFIX.HKS''] 738901 738901],
        file_after = Some (Workbook
          [(Sheet_premium,
              \<lparr>columns = [Day 738901], rows = [(Name ''N'', [Some (Fin (1 / 3))])]\<rparr>),
           (Sheet_A_close,
              \<lparr>columns = [Day 738901], rows = [(Name ''N'', [Some (Fin 100)])]\<rparr>),
           (Sheet_H_close,
              \<lparr>columns = [Day 738901], rows = [(Name ''N'', [Some (Fin 120)])]\<rparr>),
           (Sheet_rate,
              \<lparr>columns = [Day 738901], rows = [(Name ''N'', [Some (Fin (9 / 10))])]\<rparr>)])\<rparr>"
  by code_simp

section \<open>Properties of the statistics aggregator\<close>















lemma ex_num:
  "map to_num [Some (Fin (1 / 10)), Some (Fin (1 / 5)), Some (Fin (3 / 10)), Some (Fin (2 / 5)),
      Some (Fin (1 / 2))]
   = [Some (1 / 10), Some (1 / 5), Some (3 / 10), Some (2 / 5), Some (1 / 2)]"
  "list_all is_finite (non_null [Some (Fin (1 / 10)), Some (Fin (1 / 5)), Some (Fin (3 / 10)),
      Some (Fin (2 / 5)), Some (Fin (1 / 2))])"
  by (simp_all add: to_num_def is_finite_def non_null_def)





end
